theory Spec2Isabelle
  imports Complex_Main "HOL-Library.AList"
begin

section \<open>The DukeUltrasound dataset builder (duke\_ultrasound.py)\<close>

text \<open>
  A shallow embedding of \<^verbatim>\<open>tensorflow_datasets/image/duke_ultrasound.py\<close>:
  the module constants, \<^verbatim>\<open>DukeUltrasound._split_generators\<close> and
  \<^verbatim>\<open>DukeUltrasound._generate_examples\<close>. Python exceptions are values of
  \<open>error\<close>; a function that may raise returns \<open>error + 'a\<close> with \<open>Inl\<close> the
  exception. Leading underscores of the source's names are dropped.
\<close>

subsection \<open>Exceptions\<close>

datatype error =
    KeyError string
  | ValueError
  | TypeError
  | NotFoundError string
  | DownloadError string

definition ebind :: "error + 'a \<Rightarrow> ('a \<Rightarrow> error + 'b) \<Rightarrow> error + 'b" where
  "ebind r f = (case r of Inl e \<Rightarrow> Inl e | Inr x \<Rightarrow> f x)"

text \<open>Subscription \<^verbatim>\<open>d[k]\<close> of a dict with string keys.\<close>

definition getitem :: "(string \<rightharpoonup> 'v) \<Rightarrow> string \<Rightarrow> error + 'v" where
  "getitem d k = (case d k of None \<Rightarrow> Inl (KeyError k) | Some v \<Rightarrow> Inr v)"

subsection \<open>Python values held by a manifest row\<close>

text \<open>
  \<^verbatim>\<open>csv.DictReader\<close> yields dicts from column name to \<^verbatim>\<open>str\<close>, or to
  \<^verbatim>\<open>None\<close> where a line is shorter than the header. \<open>PyBool\<close> is the Python
  boolean, which the declared feature type of \<^verbatim>\<open>harmonic\<close> speaks of.
\<close>

datatype pyval = PyNone | PyStr string | PyBool bool

type_synonym row = "string \<rightharpoonup> pyval"

subsection \<open>Floating-point values and the numpy operations used\<close>

text \<open>
  A numpy float is a finite real, an infinity or NaN. Arithmetic on finite values is
  exact real arithmetic (rounding and overflow are not modelled); the special values
  follow IEEE 754 as numpy does: division by zero, the logarithm of zero and any
  operation on NaN return a special value and raise nothing.
\<close>

datatype npfloat = Fin real | PInf | NInf | NaN

text \<open>\<^verbatim>\<open>np.abs\<close> on one complex sample.\<close>

definition np_abs :: "complex \<Rightarrow> npfloat" where
  "np_abs z = Fin (cmod z)"

text \<open>\<^verbatim>\<open>np.maximum\<close>, which propagates NaN; \<^verbatim>\<open>ndarray.max\<close> folds it over
  the array and raises ValueError on an empty one.\<close>

fun np_maximum :: "npfloat \<Rightarrow> npfloat \<Rightarrow> npfloat" where
  "np_maximum NaN y = NaN"
| "np_maximum x NaN = NaN"
| "np_maximum PInf y = PInf"
| "np_maximum x PInf = PInf"
| "np_maximum NInf y = y"
| "np_maximum x NInf = x"
| "np_maximum (Fin a) (Fin b) = Fin (max a b)"

definition np_max :: "npfloat list \<Rightarrow> error + npfloat" where
  "np_max xs = (case xs of [] \<Rightarrow> Inl ValueError | x # r \<Rightarrow> Inr (fold (\<lambda>y acc. np_maximum acc y) r x))"

text \<open>True division \<^verbatim>\<open>x / y\<close> of two floats.\<close>

fun np_div :: "npfloat \<Rightarrow> npfloat \<Rightarrow> npfloat" where
  "np_div NaN y = NaN"
| "np_div x NaN = NaN"
| "np_div (Fin a) (Fin b) =
     (if b \<noteq> 0 then Fin (a / b)
      else if a = 0 then NaN else if 0 < a then PInf else NInf)"
| "np_div (Fin a) y = Fin 0"
| "np_div PInf (Fin b) = (if 0 \<le> b then PInf else NInf)"
| "np_div NInf (Fin b) = (if 0 \<le> b then NInf else PInf)"
| "np_div x y = NaN"

fun np_log10 :: "npfloat \<Rightarrow> npfloat" where
  "np_log10 NaN = NaN"
| "np_log10 PInf = PInf"
| "np_log10 NInf = NaN"
| "np_log10 (Fin a) = (if 0 < a then Fin (log 10 a) else if a = 0 then NInf else NaN)"

fun np_mul :: "npfloat \<Rightarrow> npfloat \<Rightarrow> npfloat" where
  "np_mul NaN y = NaN"
| "np_mul x NaN = NaN"
| "np_mul (Fin a) (Fin b) = Fin (a * b)"
| "np_mul (Fin a) PInf = (if a = 0 then NaN else if 0 < a then PInf else NInf)"
| "np_mul (Fin a) NInf = (if a = 0 then NaN else if 0 < a then NInf else PInf)"
| "np_mul PInf (Fin b) = (if b = 0 then NaN else if 0 < b then PInf else NInf)"
| "np_mul NInf (Fin b) = (if b = 0 then NaN else if 0 < b then NInf else PInf)"
| "np_mul PInf PInf = PInf"
| "np_mul NInf NInf = PInf"
| "np_mul PInf NInf = NInf"
| "np_mul NInf PInf = NInf"

text \<open>
  \<^verbatim>\<open>.astype(np.float32)\<close> on a float array keeps every value (no rounding is
  modelled); on a complex array numpy keeps the real part.
\<close>

definition astype_float32 :: "npfloat list \<Rightarrow> npfloat list" where
  "astype_float32 xs = xs"

definition complex_real :: "complex list \<Rightarrow> npfloat list" where
  "complex_real zs = map (\<lambda>z. Fin (Re z)) zs"

definition complex_imag :: "complex list \<Rightarrow> npfloat list" where
  "complex_imag zs = map (\<lambda>z. Fin (Im z)) zs"

subsection \<open>Arrays of a matrix file\<close>

text \<open>
  An n-dimensional array is a nest of axes; \<^verbatim>\<open>np.reshape(a, -1)\<close> lists its
  elements in row-major order. A matrix file, as \<^verbatim>\<open>scipy.io.loadmat\<close> returns
  it, is a dict from variable name to array; a real array is a complex one with zero
  imaginary parts.
\<close>

datatype 'a ndarray = Elem 'a | Axis "'a ndarray list"

fun reshape_flat :: "'a ndarray \<Rightarrow> 'a list" where
  "reshape_flat (Elem x) = [x]"
| "reshape_flat (Axis xs) = concat (map reshape_flat xs)"

type_synonym matfile = "string \<rightharpoonup> complex ndarray"

subsection \<open>The file system\<close>

text \<open>
  What the generator reads: the parsed rows of each manifest (CSV parsing is the csv
  module's) and the matrix file at each path. A path with no entry cannot be opened.
\<close>

record world =
  manifests :: "string \<rightharpoonup> row list"
  matfiles :: "string \<rightharpoonup> matfile"

definition loadmat :: "'a world_scheme \<Rightarrow> string \<Rightarrow> error + matfile" where
  "loadmat w filepath =
     (case matfiles w filepath of None \<Rightarrow> Inl (NotFoundError filepath) | Some m \<Rightarrow> Inr m)"

text \<open>\<^verbatim>\<open>os.path.join(a, b)\<close> of posixpath, for two components.\<close>

definition os_path_join :: "string \<Rightarrow> string \<Rightarrow> string" where
  "os_path_join a b =
     (if b \<noteq> [] \<and> hd b = CHR ''/'' then b
      else if a = [] \<or> last a = CHR ''/'' then a @ b
      else a @ ''/'' @ b)"

text \<open>The second component comes from the row: \<^verbatim>\<open>None\<close> is a TypeError.\<close>

fun py_os_path_join :: "string \<Rightarrow> pyval \<Rightarrow> error + string" where
  "py_os_path_join a (PyStr b) = Inr (os_path_join a b)"
| "py_os_path_join a v = Inl TypeError"

subsection \<open>Module constants (lines 46--58)\<close>

text \<open>Dicts in insertion order. \<^verbatim>\<open>tfds.Split.TRAIN\<close>, \<^verbatim>\<open>TEST\<close> and
  \<^verbatim>\<open>VALIDATION\<close> are the framework's split names.\<close>

definition Split_TRAIN :: string where "Split_TRAIN = ''train''"
definition Split_TEST :: string where "Split_TEST = ''test''"
definition Split_VALIDATION :: string where "Split_VALIDATION = ''validation''"

definition DATA_URL :: "(string \<times> string) list" where
  "DATA_URL =
     [(''phantom_data'', ''https://research.repository.duke.edu/downloads/vt150j912''),
      (''mark_data'', ''https://research.repository.duke.edu/downloads/4x51hj56d'')]"

definition DEFAULT_SPLITS :: "(string \<times> string) list" where
  "DEFAULT_SPLITS =
     [(Split_TRAIN, ''https://research.repository.duke.edu/downloads/tt44pn391''),
      (Split_TEST, ''https://research.repository.duke.edu/downloads/zg64tm441''),
      (Split_VALIDATION, ''https://research.repository.duke.edu/downloads/dj52w535x''),
      (''MARK'', ''https://research.repository.duke.edu/downloads/wd375w77v''),
      (''A'', ''https://research.repository.duke.edu/downloads/nc580n18d''),
      (''B'', ''https://research.repository.duke.edu/downloads/7h149q56p'')]"

text \<open>\<^verbatim>\<open>{**a, **b}\<close>: the entries of \<open>a\<close>, each key of \<open>b\<close> overriding in place
  or appended.\<close>

definition dict_merge :: "('k \<times> 'v) list \<Rightarrow> ('k \<times> 'v) list \<Rightarrow> ('k \<times> 'v) list" where
  "dict_merge a b = fold (\<lambda>(k, v). AList.update k v) b a"

subsection \<open>Split generators (lines 102--126)\<close>

text \<open>
  The \<^verbatim>\<open>datapath\<close> keyword argument is a dict of directory roots for the default
  splits; for a custom split the source passes \<^verbatim>\<open>dl_paths['data']\<close>, one path.
\<close>

datatype datapath = DataDirs "string \<rightharpoonup> string" | DataPath string

record split_generator =
  sg_name :: string
  sg_num_shards :: nat
  sg_datapath :: datapath
  sg_csvpath :: string

record builder =
  custom_csv_splits :: "(string \<times> string) list"

text \<open>
  The download service is the framework's: \<^verbatim>\<open>download_and_extract\<close> maps a dict
  of URLs to the dict of local paths under the same keys; a failure propagates.
\<close>

fun download_and_extract ::
  "(string \<Rightarrow> error + string) \<Rightarrow> (string \<times> string) list \<Rightarrow> error + (string \<times> string) list" where
  "download_and_extract dl [] = Inr []"
| "download_and_extract dl ((k, url) # rest) =
     ebind (dl url) (\<lambda>p.
     ebind (download_and_extract dl rest) (\<lambda>ps. Inr ((k, p) # ps)))"

fun default_splits ::
  "(string \<times> string) list \<Rightarrow> (string \<times> string) list \<Rightarrow> error + split_generator list" where
  "default_splits dl_paths [] = Inr []"
| "default_splits dl_paths ((name, path) # rest) =
     ebind (getitem (map_of dl_paths) ''mark_data'') (\<lambda>mark.
     ebind (getitem (map_of dl_paths) ''phantom_data'') (\<lambda>phantom.
     ebind (getitem (map_of dl_paths) name) (\<lambda>csv.
     ebind (default_splits dl_paths rest) (\<lambda>gs.
       Inr (\<lparr>sg_name = name, sg_num_shards = 10,
             sg_datapath = DataDirs [''mark_data'' \<mapsto> mark, ''phantom_data'' \<mapsto> phantom],
             sg_csvpath = csv\<rparr> # gs)))))"

fun custom_splits ::
  "(string \<times> string) list \<Rightarrow> (string \<times> string) list \<Rightarrow> error + split_generator list" where
  "custom_splits dl_paths [] = Inr []"
| "custom_splits dl_paths ((name, csv_path) # rest) =
     ebind (getitem (map_of dl_paths) ''data'') (\<lambda>d.
     ebind (custom_splits dl_paths rest) (\<lambda>gs.
       Inr (\<lparr>sg_name = name, sg_num_shards = 10,
             sg_datapath = DataPath d,
             sg_csvpath = csv_path\<rparr> # gs)))"

definition split_generators ::
  "builder \<Rightarrow> (string \<Rightarrow> error + string) \<Rightarrow> error + split_generator list" where
  "split_generators self dl =
     ebind (download_and_extract dl (dict_merge DEFAULT_SPLITS DATA_URL)) (\<lambda>dl_paths.
     ebind (default_splits dl_paths DEFAULT_SPLITS) (\<lambda>splits.
     ebind (custom_splits dl_paths (custom_csv_splits self)) (\<lambda>custom.
       Inr (splits @ custom))))"

subsection \<open>Example generation (lines 128--161)\<close>

record das_features =
  das_dB :: "npfloat list"
  das_real :: "npfloat list"
  das_imag :: "npfloat list"

record example =
  das :: das_features
  dtce :: "npfloat list"
  f0_hz :: pyval
  voltage :: pyval
  focus_cm :: pyval
  height :: pyval
  width :: pyval
  initial_radius :: pyval
  final_radius :: pyval
  initial_angle :: pyval
  final_angle :: pyval
  probe :: pyval
  scanner :: pyval
  target :: pyval
  timestamp_id :: pyval
  harmonic :: pyval

text \<open>\<^verbatim>\<open>datapath[data_key]\<close>: a dict is looked up, a string cannot be indexed by
  a string.\<close>

fun datapath_getitem :: "datapath \<Rightarrow> string \<Rightarrow> error + string" where
  "datapath_getitem (DataDirs d) k = getitem d k"
| "datapath_getitem (DataPath p) k = Inl TypeError"

text \<open>Lines 131--133: the path of the row's matrix file.\<close>

definition row_filepath :: "datapath \<Rightarrow> row \<Rightarrow> error + string" where
  "row_filepath datapath row =
     ebind (getitem row ''target'') (\<lambda>tgt.
     let data_key = (if tgt = PyStr ''mark'' then ''mark_data'' else ''phantom_data'') in
     ebind (datapath_getitem datapath data_key) (\<lambda>dir.
     ebind (getitem row ''filename'') (\<lambda>fname.
       py_os_path_join dir fname)))"

text \<open>Lines 136--138: magnitude, normalisation by the maximum, decibels.\<close>

definition log_magnitude :: "complex list \<Rightarrow> error + npfloat list" where
  "log_magnitude flat =
     (let iq = map np_abs flat in
      ebind (np_max iq) (\<lambda>m.
      let iq = map (\<lambda>x. np_div x m) iq;
          iq = map (\<lambda>x. np_mul (Fin 20) (np_log10 x)) iq
      in Inr iq))"

text \<open>The body of the loop over the manifest's rows: one key and one record, or the
  exception that ends the generator.\<close>

definition generate_examples_row ::
  "'a world_scheme \<Rightarrow> datapath \<Rightarrow> row \<Rightarrow> error + (pyval \<times> example)" where
  "generate_examples_row w datapath row =
     ebind (row_filepath datapath row) (\<lambda>filepath.
     ebind (loadmat w filepath) (\<lambda>matfile.
     ebind (getitem matfile ''iq'') (\<lambda>iq_arr.
     ebind (log_magnitude (reshape_flat iq_arr)) (\<lambda>iq.
     ebind (getitem row ''filename'') (\<lambda>key.
     ebind (getitem matfile ''dtce'') (\<lambda>dtce_arr.
     ebind (getitem row ''f0'') (\<lambda>f0.
     ebind (getitem row ''v'') (\<lambda>v.
     ebind (getitem row ''focus_cm'') (\<lambda>focus.
     ebind (getitem row ''axial_samples'') (\<lambda>axial.
     ebind (getitem row ''lateral_samples'') (\<lambda>lateral.
     ebind (getitem row ''initial_radius'') (\<lambda>r0.
     ebind (getitem row ''final_radius'') (\<lambda>r1.
     ebind (getitem row ''initial_angle'') (\<lambda>a0.
     ebind (getitem row ''final_angle'') (\<lambda>a1.
     ebind (getitem row ''probe'') (\<lambda>prb.
     ebind (getitem row ''scanner'') (\<lambda>scn.
     ebind (getitem row ''target'') (\<lambda>tgt.
     ebind (getitem row ''timestamp_id'') (\<lambda>ts.
     ebind (getitem row ''harm'') (\<lambda>harm.
       Inr (key,
         \<lparr>das = \<lparr>das_dB = astype_float32 iq,
                 das_real = astype_float32 (complex_real (reshape_flat iq_arr)),
                 das_imag = astype_float32 (complex_imag (reshape_flat iq_arr))\<rparr>,
          dtce = astype_float32 (complex_real (reshape_flat dtce_arr)),
          f0_hz = f0, voltage = v, focus_cm = focus,
          height = axial, width = lateral,
          initial_radius = r0, final_radius = r1,
          initial_angle = a0, final_angle = a1,
          probe = prb, scanner = scn, target = tgt,
          timestamp_id = ts, harmonic = harm\<rparr>)))))))))))))))))))))"

text \<open>
  The generator is lazy: the pairs yielded before an exception have been handed to the
  caller. A run is the list of pairs yielded and the exception that ended it, if any.
\<close>

fun generate_examples_loop ::
  "'a world_scheme \<Rightarrow> datapath \<Rightarrow> row list \<Rightarrow> (pyval \<times> example) list \<times> error option" where
  "generate_examples_loop w datapath [] = ([], None)"
| "generate_examples_loop w datapath (row # rows) =
     (case generate_examples_row w datapath row of
        Inl e \<Rightarrow> ([], Some e)
      | Inr kv \<Rightarrow>
          (case generate_examples_loop w datapath rows of (out, err) \<Rightarrow> (kv # out, err)))"

definition generate_examples ::
  "'a world_scheme \<Rightarrow> datapath \<Rightarrow> string \<Rightarrow> (pyval \<times> example) list \<times> error option" where
  "generate_examples w datapath csvpath =
     (case manifests w csvpath of
        None \<Rightarrow> ([], Some (NotFoundError csvpath))
      | Some rows \<Rightarrow> generate_examples_loop w datapath rows)"

subsection \<open>A concrete manifest and its matrix files\<close>

text \<open>
  The end-to-end scenario of the spec: one row for \<^verbatim>\<open>a.mat\<close> with target
  \<^verbatim>\<open>mark\<close>, whose matrix file holds \<^verbatim>\<open>iq = [1+1j, 0+2j]\<close> and
  \<^verbatim>\<open>dtce = [0.1, 0.2]\<close>; and a phantom row \<^verbatim>\<open>z.mat\<close> whose IQ array is
  all zero.
\<close>

definition scenario_row :: row where
  "scenario_row =
     [''filename'' \<mapsto> PyStr ''a.mat'', ''target'' \<mapsto> PyStr ''mark'',
      ''f0'' \<mapsto> PyStr ''5000000'', ''v'' \<mapsto> PyStr ''30'',
      ''focus_cm'' \<mapsto> PyStr ''4'', ''axial_samples'' \<mapsto> PyStr ''1'',
      ''lateral_samples'' \<mapsto> PyStr ''2'', ''initial_radius'' \<mapsto> PyStr ''0.01'',
      ''final_radius'' \<mapsto> PyStr ''0.1'', ''initial_angle'' \<mapsto> PyStr ''-0.6'',
      ''final_angle'' \<mapsto> PyStr ''0.6'', ''probe'' \<mapsto> PyStr ''c52v'',
      ''scanner'' \<mapsto> PyStr ''verasonics'', ''timestamp_id'' \<mapsto> PyStr ''7'',
      ''harm'' \<mapsto> PyStr ''False'']"

definition scenario_matfile :: matfile where
  "scenario_matfile =
     [''iq'' \<mapsto> Axis [Elem (Complex 1 1), Elem (Complex 0 2)],
      ''dtce'' \<mapsto> Axis [Elem (Complex (1 / 10) 0), Elem (Complex (2 / 10) 0)]]"

definition zero_row :: row where
  "zero_row =
     [''filename'' \<mapsto> PyStr ''z.mat'', ''target'' \<mapsto> PyStr ''phantom'',
      ''f0'' \<mapsto> PyStr ''5000000'', ''v'' \<mapsto> PyStr ''30'',
      ''focus_cm'' \<mapsto> PyStr ''4'', ''axial_samples'' \<mapsto> PyStr ''1'',
      ''lateral_samples'' \<mapsto> PyStr ''2'', ''initial_radius'' \<mapsto> PyStr ''0.01'',
      ''final_radius'' \<mapsto> PyStr ''0.1'', ''initial_angle'' \<mapsto> PyStr ''-0.6'',
      ''final_angle'' \<mapsto> PyStr ''0.6'', ''probe'' \<mapsto> PyStr ''c52v'',
      ''scanner'' \<mapsto> PyStr ''verasonics'', ''timestamp_id'' \<mapsto> PyStr ''8'',
      ''harm'' \<mapsto> PyStr ''True'']"

definition zero_matfile :: matfile where
  "zero_matfile =
     [''iq'' \<mapsto> Axis [Axis [Elem 0, Elem 0]],
      ''dtce'' \<mapsto> Axis [Axis [Elem 0, Elem 0]]]"

definition scenario_world :: world where
  "scenario_world =
     \<lparr>manifests = [''manifest.csv'' \<mapsto> [scenario_row], ''two.csv'' \<mapsto> [scenario_row, zero_row]],
      matfiles = [''/data/mark/a.mat'' \<mapsto> scenario_matfile,
                  ''/data/phantom/z.mat'' \<mapsto> zero_matfile]\<rparr>"

definition scenario_dirs :: "string \<rightharpoonup> string" where
  "scenario_dirs = [''mark_data'' \<mapsto> ''/data/mark'', ''phantom_data'' \<mapsto> ''/data/phantom'']"

definition scenario_example :: example where
  "scenario_example =
     \<lparr>das = \<lparr>das_dB = [Fin (20 * log 10 (sqrt 2 / 2)), Fin 0],
             das_real = [Fin 1, Fin 0],
             das_imag = [Fin 1, Fin 2]\<rparr>,
      dtce = [Fin (1 / 10), Fin (2 / 10)],
      f0_hz = PyStr ''5000000'', voltage = PyStr ''30'', focus_cm = PyStr ''4'',
      height = PyStr ''1'', width = PyStr ''2'',
      initial_radius = PyStr ''0.01'', final_radius = PyStr ''0.1'',
      initial_angle = PyStr ''-0.6'', final_angle = PyStr ''0.6'',
      probe = PyStr ''c52v'', scanner = PyStr ''verasonics'', target = PyStr ''mark'',
      timestamp_id = PyStr ''7'', harmonic = PyStr ''False''\<rparr>"

definition zero_example :: example where
  "zero_example =
     \<lparr>das = \<lparr>das_dB = [NaN, NaN], das_real = [Fin 0, Fin 0], das_imag = [Fin 0, Fin 0]\<rparr>,
      dtce = [Fin 0, Fin 0],
      f0_hz = PyStr ''5000000'', voltage = PyStr ''30'', focus_cm = PyStr ''4'',
      height = PyStr ''1'', width = PyStr ''2'',
      initial_radius = PyStr ''0.01'', final_radius = PyStr ''0.1'',
      initial_angle = PyStr ''-0.6'', final_angle = PyStr ''0.6'',
      probe = PyStr ''c52v'', scanner = PyStr ''verasonics'', target = PyStr ''phantom'',
      timestamp_id = PyStr ''8'', harmonic = PyStr ''True''\<rparr>"

section \<open>Properties\<close>

subsection \<open>Helper facts\<close>

lemma ebind_simps [simp]:
  "ebind (Inl e) f = Inl e"
  "ebind (Inr x) f = f x"
  by (simp_all add: ebind_def)

lemma ebind_eq_Inr:
  "ebind r f = Inr y \<longleftrightarrow> (\<exists>x. r = Inr x \<and> f x = Inr y)"
  by (cases r) simp_all

lemma getitem_eq_Inr [simp]: "getitem d k = Inr v \<longleftrightarrow> d k = Some v"
  by (simp add: getitem_def split: option.splits)

lemmas constants_defs =
  DEFAULT_SPLITS_def DATA_URL_def Split_TRAIN_def Split_TEST_def Split_VALIDATION_def

lemma generate_examples_row_InrD:
  assumes "generate_examples_row w datapath row = Inr (key, ex)"
  shows "\<exists>filepath matfile iq_arr dtce_arr.
    row_filepath datapath row = Inr filepath \<and>
    matfiles w filepath = Some matfile \<and>
    matfile ''iq'' = Some iq_arr \<and>
    matfile ''dtce'' = Some dtce_arr \<and>
    log_magnitude (reshape_flat iq_arr) = Inr (das_dB (das ex)) \<and>
    das_real (das ex) = complex_real (reshape_flat iq_arr) \<and>
    das_imag (das ex) = complex_imag (reshape_flat iq_arr) \<and>
    dtce ex = complex_real (reshape_flat dtce_arr) \<and>
    row ''filename'' = Some key \<and>
    row ''harm'' = Some (harmonic ex)"
  using assms unfolding generate_examples_row_def loadmat_def astype_float32_def
  by (auto simp: ebind_eq_Inr split: option.splits)

lemma row_filepath_InrD:
  assumes "row_filepath datapath row = Inr p"
  shows "\<exists>tgt dirs dir fname. row ''target'' = Some tgt \<and> datapath = DataDirs dirs
     \<and> dirs (if tgt = PyStr ''mark'' then ''mark_data'' else ''phantom_data'') = Some dir
     \<and> row ''filename'' = Some (PyStr fname) \<and> p = os_path_join dir fname"
proof -
  from assms obtain tgt dir fv where t: "row ''target'' = Some tgt"
    and d: "datapath_getitem datapath (if tgt = PyStr ''mark'' then ''mark_data'' else ''phantom_data'') = Inr dir"
    and f: "row ''filename'' = Some fv" and j: "py_os_path_join dir fv = Inr p"
    unfolding row_filepath_def by (auto simp: ebind_eq_Inr Let_def)
  from d obtain dirs where "datapath = DataDirs dirs"
    and "dirs (if tgt = PyStr ''mark'' then ''mark_data'' else ''phantom_data'') = Some dir"
    by (cases datapath) auto
  moreover from j obtain fname where "fv = PyStr fname" "p = os_path_join dir fname"
    by (cases fv) auto
  ultimately show ?thesis using t f by blast
qed

lemma log_magnitude_length: "log_magnitude zs = Inr xs \<Longrightarrow> length xs = length zs"
  unfolding log_magnitude_def by (auto simp: ebind_eq_Inr Let_def)


lemma fold_np_maximum_abs:
  "\<exists>M. fold (\<lambda>y acc. np_maximum acc y) (map np_abs zs) (Fin a) = Fin M \<and> a \<le> M
     \<and> (\<forall>z\<in>set zs. cmod z \<le> M) \<and> (M = a \<or> (\<exists>z\<in>set zs. cmod z = M))"
proof (induction zs arbitrary: a)
  case Nil
  then show ?case by simp
next
  case (Cons z zs)
  obtain M where M: "fold (\<lambda>y acc. np_maximum acc y) (map np_abs zs) (Fin (max a (cmod z))) = Fin M"
    "max a (cmod z) \<le> M" "\<forall>z\<in>set zs. cmod z \<le> M"
    "M = max a (cmod z) \<or> (\<exists>z\<in>set zs. cmod z = M)"
    using Cons.IH [of "max a (cmod z)"] by blast
  have "fold (\<lambda>y acc. np_maximum acc y) (map np_abs (z # zs)) (Fin a) = Fin M"
    using M(1) by (simp add: np_abs_def)
  moreover have "a \<le> M" "\<forall>y\<in>set (z # zs). cmod y \<le> M"
    using M(2,3) by auto
  moreover have "M = a \<or> (\<exists>y\<in>set (z # zs). cmod y = M)"
    using M(4) by (auto simp: max_def split: if_splits)
  ultimately show ?case by blast
qed

lemma np_max_abs:
  assumes "zs \<noteq> []"
  shows "\<exists>M. np_max (map np_abs zs) = Inr (Fin M) \<and> (\<forall>z\<in>set zs. cmod z \<le> M)
           \<and> (\<exists>z\<in>set zs. cmod z = M)"
proof -
  obtain z rest where zs: "zs = z # rest" using assms by (cases zs) auto
  obtain M where M: "fold (\<lambda>y acc. np_maximum acc y) (map np_abs rest) (Fin (cmod z)) = Fin M"
    "cmod z \<le> M" "\<forall>y\<in>set rest. cmod y \<le> M" "M = cmod z \<or> (\<exists>y\<in>set rest. cmod y = M)"
    using fold_np_maximum_abs [of rest "cmod z"] by blast
  have "np_max (map np_abs zs) = Inr (Fin M)"
    using M(1) by (simp add: zs np_max_def np_abs_def)
  moreover have "\<forall>y\<in>set zs. cmod y \<le> M" using M(2,3) by (auto simp: zs)
  moreover have "\<exists>y\<in>set zs. cmod y = M" using M(4) by (auto simp: zs)
  ultimately show ?thesis by blast
qed




lemma log_magnitude_all_zero:
  assumes "zs \<noteq> []" and "\<forall>z\<in>set zs. z = 0"
  shows "np_max (map np_abs zs) = Inr (Fin 0) \<and> log_magnitude zs = Inr (replicate (length zs) NaN)"
proof -
  obtain M where M: "np_max (map np_abs zs) = Inr (Fin M)" "\<exists>z\<in>set zs. cmod z = M"
    using np_max_abs [OF assms(1)] by blast
  with assms(2) have M0: "M = 0" by auto
  have "map (\<lambda>z. np_mul (Fin 20) (np_log10 (np_div (np_abs z) (Fin 0)))) zs
          = replicate (length zs) NaN"
    using assms(2) by (induction zs) (simp_all add: np_abs_def)
  then show ?thesis using M(1) M0 by (simp add: log_magnitude_def Let_def comp_def)
qed


lemma scenario_row_filepath:
  "row_filepath (DataDirs scenario_dirs) scenario_row = Inr ''/data/mark/a.mat''"
  by (simp add: row_filepath_def scenario_dirs_def scenario_row_def os_path_join_def getitem_def)

lemma zero_row_filepath:
  "row_filepath (DataDirs scenario_dirs) zero_row = Inr ''/data/phantom/z.mat''"
  by (simp add: row_filepath_def scenario_dirs_def zero_row_def os_path_join_def getitem_def)

lemma scenario_log_magnitude:
  "log_magnitude [Complex 1 1, Complex 0 2] = Inr [Fin (20 * log 10 (sqrt 2 / 2)), Fin 0]"
proof -
  have "sqrt 2 \<le> 2" by (rule real_le_lsqrt) simp_all
  then have "max (sqrt 2) 2 = 2" by simp
  then show ?thesis
    by (simp add: log_magnitude_def Let_def np_max_def np_abs_def cmod_def)
qed

lemma scenario_row_example:
  "generate_examples_row scenario_world (DataDirs scenario_dirs) scenario_row
     = Inr (PyStr ''a.mat'', scenario_example)"
  apply (simp only: generate_examples_row_def scenario_row_filepath ebind_simps)
  apply (simp add: loadmat_def scenario_world_def scenario_matfile_def getitem_def
      scenario_log_magnitude)
  apply (simp add: scenario_row_def scenario_example_def astype_float32_def
      complex_real_def complex_imag_def)
  done

lemma zero_row_example:
  "generate_examples_row scenario_world (DataDirs scenario_dirs) zero_row
     = Inr (PyStr ''z.mat'', zero_example)"
  apply (simp only: generate_examples_row_def zero_row_filepath ebind_simps)
  apply (simp add: loadmat_def scenario_world_def zero_matfile_def getitem_def
      log_magnitude_def np_max_def np_abs_def Let_def)
  apply (simp add: zero_row_def zero_example_def astype_float32_def
      complex_real_def complex_imag_def)
  done

lemma generate_examples_loop_nth:
  assumes "i < length (fst (generate_examples_loop w datapath rows))"
  shows "i < length rows
    \<and> generate_examples_row w datapath (rows ! i) = Inr (fst (generate_examples_loop w datapath rows) ! i)"
  using assms
proof (induction rows arbitrary: i)
  case Nil
  then show ?case by simp
next
  case (Cons row rows)
  show ?case
  proof (cases "generate_examples_row w datapath row")
    case (Inl e)
    with Cons.prems show ?thesis by simp
  next
    case (Inr kv)
    show ?thesis
    proof (cases i)
      case 0
      then show ?thesis using Inr by (simp split: prod.splits)
    next
      case (Suc j)
      with Cons.prems Inr have "j < length (fst (generate_examples_loop w datapath rows))"
        by (simp split: prod.splits)
      from Cons.IH [OF this] show ?thesis using Inr Suc by (simp split: prod.splits)
    qed
  qed
qed

lemma generate_examples_loop_mem:
  assumes "kv \<in> set (fst (generate_examples_loop w datapath rows))"
  shows "\<exists>row\<in>set rows. generate_examples_row w datapath row = Inr kv"
proof -
  from assms obtain i where i: "i < length (fst (generate_examples_loop w datapath rows))"
    "fst (generate_examples_loop w datapath rows) ! i = kv"
    by (auto simp: in_set_conv_nth)
  from generate_examples_loop_nth [OF i(1)] i(2) show ?thesis
    by (metis nth_mem)
qed

lemma generate_examples_loop_complete:
  "snd (generate_examples_loop w datapath rows) = None
     \<Longrightarrow> length (fst (generate_examples_loop w datapath rows)) = length rows"
  by (induction rows) (auto split: sum.splits prod.splits)

lemma generate_examples_row_key:
  assumes "generate_examples_row w datapath row = Inr kv"
  shows "row ''filename'' = Some (fst kv)"
proof -
  obtain key ex where kv: "kv = (key, ex)" by (cases kv)
  from generate_examples_row_InrD [OF assms [unfolded kv]] show ?thesis
    by (auto simp: kv)
qed

lemma generate_examples_loop_length:
  "length (fst (generate_examples_loop w datapath rows)) \<le> length rows"
  by (induction rows) (auto split: sum.splits prod.splits)

lemma generate_examples_loop_keys:
  "map (\<lambda>kv. Some (fst kv)) (fst (generate_examples_loop w datapath rows))
     = map (\<lambda>r. r ''filename'') (take (length (fst (generate_examples_loop w datapath rows))) rows)"
proof (rule nth_equalityI)
  show "length (map (\<lambda>kv. Some (fst kv)) (fst (generate_examples_loop w datapath rows)))
      = length (map (\<lambda>r. r ''filename'') (take (length (fst (generate_examples_loop w datapath rows))) rows))"
    using generate_examples_loop_length [of w datapath rows] by simp
next
  fix i assume "i < length (map (\<lambda>kv. Some (fst kv)) (fst (generate_examples_loop w datapath rows)))"
  then have i: "i < length (fst (generate_examples_loop w datapath rows))" by simp
  from generate_examples_loop_nth [OF i]
  have "i < length rows"
    and r: "generate_examples_row w datapath (rows ! i) = Inr (fst (generate_examples_loop w datapath rows) ! i)"
    by simp_all
  from r have "(rows ! i) ''filename'' = Some (fst (fst (generate_examples_loop w datapath rows) ! i))"
    by (rule generate_examples_row_key)
  then show "map (\<lambda>kv. Some (fst kv)) (fst (generate_examples_loop w datapath rows)) ! i
      = map (\<lambda>r. r ''filename'') (take (length (fst (generate_examples_loop w datapath rows))) rows) ! i"
    using i \<open>i < length rows\<close> by simp
qed

lemma generate_examples_row_cong:
  assumes "\<forall>p. row_filepath datapath row = Inr p \<longrightarrow> matfiles w1 p = matfiles w2 p"
  shows "generate_examples_row w1 datapath row = generate_examples_row w2 datapath row"
proof (cases "row_filepath datapath row")
  case (Inl e)
  then show ?thesis by (simp add: generate_examples_row_def)
next
  case (Inr p)
  with assms have "loadmat w1 p = loadmat w2 p" by (simp add: loadmat_def)
  with Inr show ?thesis by (simp add: generate_examples_row_def)
qed

lemma generate_examples_loop_cong:
  assumes "\<forall>row\<in>set rows. \<forall>p. row_filepath datapath row = Inr p \<longrightarrow> matfiles w1 p = matfiles w2 p"
  shows "generate_examples_loop w1 datapath rows = generate_examples_loop w2 datapath rows"
  using assms
proof (induction rows)
  case Nil
  then show ?case by simp
next
  case (Cons row rows)
  have "generate_examples_row w1 datapath row = generate_examples_row w2 datapath row"
    using Cons.prems by (intro generate_examples_row_cong) simp
  moreover have "generate_examples_loop w1 datapath rows = generate_examples_loop w2 datapath rows"
    using Cons.prems by (intro Cons.IH) simp
  ultimately show ?case by (simp split: sum.splits)
qed

lemma two_csv_manifest:
  "manifests scenario_world ''two.csv'' = Some [scenario_row, zero_row]"
  by (simp add: scenario_world_def)

lemma one_csv_manifest:
  "manifests scenario_world ''manifest.csv'' = Some [scenario_row]"
  by (simp add: scenario_world_def)

lemma two_csv_examples:
  "generate_examples scenario_world (DataDirs scenario_dirs) ''two.csv''
     = ([(PyStr ''a.mat'', scenario_example), (PyStr ''z.mat'', zero_example)], None)"
  by (simp add: generate_examples_def two_csv_manifest scenario_row_example zero_row_example)

lemma scenario_files:
  "matfiles scenario_world ''/data/mark/a.mat'' = Some scenario_matfile"
  "matfiles scenario_world ''/data/phantom/z.mat'' = Some zero_matfile"
  "scenario_matfile ''iq'' = Some (Axis [Elem (Complex 1 1), Elem (Complex 0 2)])"
  "zero_matfile ''iq'' = Some (Axis [Axis [Elem 0, Elem 0]])"
  by (simp_all add: scenario_world_def scenario_matfile_def zero_matfile_def)

lemma download_and_extract_keys:
  "download_and_extract dl req = Inr ps \<Longrightarrow> map fst ps = map fst req"
  by (induction dl req arbitrary: ps rule: download_and_extract.induct)
     (auto simp: ebind_eq_Inr)

lemma custom_splits_no_data:
  "map_of dl_paths ''data'' = None \<Longrightarrow> cs \<noteq> []
     \<Longrightarrow> custom_splits dl_paths cs = Inl (KeyError ''data'')"
  by (cases cs) (auto simp: getitem_def)

lemma split_generators_custom_fails:
  assumes "custom_csv_splits self \<noteq> []"
  shows "\<exists>e. split_generators self dl = Inl e"
proof (cases "download_and_extract dl (dict_merge DEFAULT_SPLITS DATA_URL)")
  case (Inl e)
  then show ?thesis by (simp add: split_generators_def)
next
  case (Inr ps)
  then have "map fst ps = map fst (dict_merge DEFAULT_SPLITS DATA_URL)"
    by (rule download_and_extract_keys)
  then have "set (map fst ps) = set (map fst (dict_merge DEFAULT_SPLITS DATA_URL))" by simp
  then have "''data'' \<notin> fst ` set ps"
    by (simp add: dict_merge_def constants_defs)
  then have "map_of ps ''data'' = None" by (simp add: map_of_eq_None_iff)
  then have "custom_splits ps (custom_csv_splits self) = Inl (KeyError ''data'')"
    using assms by (rule custom_splits_no_data)
  then show ?thesis using Inr
    by (cases "default_splits ps DEFAULT_SPLITS") (simp_all add: split_generators_def)
qed

subsection \<open>The download request and the split generators\<close>

text \<open>
  C2, as the spec states it, fails: the builder's fixed inputs are two data archives
  and five CSV manifests. \<^verbatim>\<open>_DEFAULT_SPLITS\<close> has six entries, not five.
\<close>

theorem default_splits_not_five:
  "\<not> (length DATA_URL = 2 \<and> length DEFAULT_SPLITS = 5)"
  by (simp add: DEFAULT_SPLITS_def)

text \<open>
  C2, amended: the fixed external inputs are exactly two data archives and exactly six
  CSV manifests (train, test, validation, MARK, A, B). The dict handed to the download
  service is these eight entries, under pairwise distinct keys and with pairwise
  distinct fixed URLs.
\<close>

theorem fixed_external_inputs:
  "length DATA_URL = 2 \<and> length DEFAULT_SPLITS = 6
   \<and> map fst DEFAULT_SPLITS = [''train'', ''test'', ''validation'', ''MARK'', ''A'', ''B'']
   \<and> map fst DATA_URL = [''phantom_data'', ''mark_data'']
   \<and> dict_merge DEFAULT_SPLITS DATA_URL = DEFAULT_SPLITS @ DATA_URL
   \<and> distinct (map fst (DEFAULT_SPLITS @ DATA_URL))
   \<and> distinct (map snd (DEFAULT_SPLITS @ DATA_URL))"
  by (simp add: dict_merge_def constants_defs)

text \<open>
  C1 fails on the code: with one custom split \<^verbatim>\<open>{'extra': '/tmp/extra.csv'}\<close> and a
  download service that resolves every URL, \<^verbatim>\<open>_split_generators\<close> raises
  \<^verbatim>\<open>KeyError('data')\<close> instead of yielding a split generator: the downloaded
  paths are keyed by the split names, \<^verbatim>\<open>phantom_data\<close> and \<^verbatim>\<open>mark_data\<close>, and
  the custom branch reads the key \<^verbatim>\<open>data\<close>.
\<close>

theorem custom_split_raises_KeyError:
  "split_generators \<lparr>custom_csv_splits = [(''extra'', ''/tmp/extra.csv'')]\<rparr>
     (\<lambda>url. Inr (''/cache/'' @ url)) = Inl (KeyError ''data'')"
  by (simp add: split_generators_def dict_merge_def constants_defs getitem_def)

subsection \<open>The per-row transform\<close>

text \<open>
  C3: for a row whose flattened IQ array is all zero, the maximum magnitude is zero and
  the normalisation divides by it with no guard: every dB value is
  \<open>20 * log10 (0 / 0)\<close>, that is NaN; the row is not skipped, and the only exceptions
  the transform can still raise are KeyErrors for a missing column or variable.
\<close>

theorem all_zero_divides_by_zero:
  assumes "row_filepath datapath row = Inr filepath"
    and "matfiles w filepath = Some matfile"
    and "matfile ''iq'' = Some iq_arr"
    and "reshape_flat iq_arr \<noteq> []"
    and "\<forall>z\<in>set (reshape_flat iq_arr). z = 0"
  shows "np_max (map np_abs (reshape_flat iq_arr)) = Inr (Fin 0)
    \<and> log_magnitude (reshape_flat iq_arr)
        = Inr (map (\<lambda>x. np_mul (Fin 20) (np_log10 (np_div x (Fin 0)))) (map np_abs (reshape_flat iq_arr)))
    \<and> log_magnitude (reshape_flat iq_arr) = Inr (replicate (length (reshape_flat iq_arr)) NaN)
    \<and> (\<forall>key ex. generate_examples_row w datapath row = Inr (key, ex)
          \<longrightarrow> das_dB (das ex) = replicate (length (reshape_flat iq_arr)) NaN)
    \<and> (\<forall>e. generate_examples_row w datapath row = Inl e \<longrightarrow> (\<exists>k. e = KeyError k))"
proof -
  note z = log_magnitude_all_zero [OF assms(4,5)]
  have a: "log_magnitude (reshape_flat iq_arr)
        = Inr (map (\<lambda>x. np_mul (Fin 20) (np_log10 (np_div x (Fin 0)))) (map np_abs (reshape_flat iq_arr)))"
    using z by (simp add: log_magnitude_def Let_def)
  have b: "\<forall>key ex. generate_examples_row w datapath row = Inr (key, ex)
          \<longrightarrow> das_dB (das ex) = replicate (length (reshape_flat iq_arr)) NaN"
  proof (intro allI impI)
    fix key ex assume "generate_examples_row w datapath row = Inr (key, ex)"
    from generate_examples_row_InrD [OF this] assms(1-3) z
    show "das_dB (das ex) = replicate (length (reshape_flat iq_arr)) NaN" by auto
  qed
  have c: "\<forall>e. generate_examples_row w datapath row = Inl e \<longrightarrow> (\<exists>k. e = KeyError k)"
    using assms(1-3) z
    by (auto simp: generate_examples_row_def loadmat_def ebind_def getitem_def
        split: sum.splits option.splits)
  show ?thesis using z a b c by blast
qed

theorem all_zero_divides_by_zero_witness:
  "np_max (map np_abs (reshape_flat (Axis [Axis [Elem 0, Elem 0]]))) = Inr (Fin 0)
   \<and> generate_examples_row scenario_world (DataDirs scenario_dirs) zero_row
        = Inr (PyStr ''z.mat'', zero_example)
   \<and> das_dB (das zero_example) = [NaN, NaN]
   \<and> generate_examples_row scenario_world (DataDirs scenario_dirs) (zero_row(''harm'' := None))
        = Inl (KeyError ''harm'')"
proof -
  have ne: "reshape_flat (Axis [Axis [Elem (0::complex), Elem 0]]) \<noteq> []" by simp
  have z: "\<forall>z\<in>set (reshape_flat (Axis [Axis [Elem (0::complex), Elem 0]])). z = 0" by simp
  have p: "row_filepath (DataDirs scenario_dirs) (zero_row(''harm'' := None))
             = Inr ''/data/phantom/z.mat''"
    by (simp add: row_filepath_def scenario_dirs_def zero_row_def os_path_join_def getitem_def)
  have e: "generate_examples_row scenario_world (DataDirs scenario_dirs) (zero_row(''harm'' := None))
        = Inl (KeyError ''harm'')"
    apply (simp only: generate_examples_row_def p ebind_simps)
    apply (simp add: loadmat_def scenario_world_def zero_matfile_def getitem_def
        log_magnitude_def np_max_def np_abs_def Let_def)
    apply (simp add: zero_row_def)
    done
  from all_zero_divides_by_zero [OF zero_row_filepath scenario_files(2) scenario_files(4) ne z]
       all_zero_divides_by_zero [OF p scenario_files(2) scenario_files(4) ne z]
  show ?thesis using zero_row_example e by (simp add: zero_example_def)
qed



text \<open>
  C5: every record the generator emits has \<^verbatim>\<open>das.dB\<close>, \<^verbatim>\<open>das.real\<close> and
  \<^verbatim>\<open>das.imag\<close> of the same length.
\<close>

theorem das_lengths_equal:
  assumes "(key, ex) \<in> set (fst (generate_examples w datapath csvpath))"
  shows "length (das_dB (das ex)) = length (das_real (das ex))
       \<and> length (das_real (das ex)) = length (das_imag (das ex))"
proof -
  from assms obtain rows where "(key, ex) \<in> set (fst (generate_examples_loop w datapath rows))"
    by (auto simp: generate_examples_def split: option.splits)
  then obtain row where "generate_examples_row w datapath row = Inr (key, ex)"
    using generate_examples_loop_mem by blast
  from generate_examples_row_InrD [OF this] obtain iq_arr where
    "log_magnitude (reshape_flat iq_arr) = Inr (das_dB (das ex))"
    "das_real (das ex) = complex_real (reshape_flat iq_arr)"
    "das_imag (das ex) = complex_imag (reshape_flat iq_arr)"
    by blast
  then show ?thesis
    using log_magnitude_length [of "reshape_flat iq_arr" "das_dB (das ex)"]
    by (simp add: complex_real_def complex_imag_def)
qed

theorem das_lengths_equal_witness:
  "(PyStr ''a.mat'', scenario_example)
      \<in> set (fst (generate_examples scenario_world (DataDirs scenario_dirs) ''two.csv''))
   \<and> length (das_dB (das scenario_example)) = 2
   \<and> length (das_real (das scenario_example)) = 2
   \<and> length (das_imag (das scenario_example)) = 2"
proof -
  have m: "(PyStr ''a.mat'', scenario_example)
      \<in> set (fst (generate_examples scenario_world (DataDirs scenario_dirs) ''two.csv''))"
    by (simp add: two_csv_examples)
  have "length (das_dB (das scenario_example)) = 2" by (simp add: scenario_example_def)
  with das_lengths_equal [OF m] m show ?thesis by simp
qed



text \<open>
  C7: a row whose target is the string \<^verbatim>\<open>mark\<close> has its matrix file resolved by
  joining the mark-data directory with the row's filename; a row with any other target
  has it resolved against the phantom-data directory. The file at that path is the one
  the record's arrays are read from, and with no file there generation fails on that
  path.
\<close>

theorem matrix_path_by_target:
  assumes "row ''target'' = Some tgt"
    and "row ''filename'' = Some (PyStr fname)"
    and "dirs ''mark_data'' = Some mark_dir"
    and "dirs ''phantom_data'' = Some phantom_dir"
  shows "row_filepath (DataDirs dirs) row
           = Inr (os_path_join (if tgt = PyStr ''mark'' then mark_dir else phantom_dir) fname)
    \<and> (\<forall>key ex. generate_examples_row w (DataDirs dirs) row = Inr (key, ex) \<longrightarrow>
          (\<exists>matfile iq_arr.
             matfiles w (os_path_join (if tgt = PyStr ''mark'' then mark_dir else phantom_dir) fname)
               = Some matfile
           \<and> matfile ''iq'' = Some iq_arr
           \<and> das_real (das ex) = complex_real (reshape_flat iq_arr)
           \<and> das_imag (das ex) = complex_imag (reshape_flat iq_arr)))
    \<and> (matfiles w (os_path_join (if tgt = PyStr ''mark'' then mark_dir else phantom_dir) fname) = None
          \<longrightarrow> generate_examples_row w (DataDirs dirs) row
            = Inl (NotFoundError
                (os_path_join (if tgt = PyStr ''mark'' then mark_dir else phantom_dir) fname)))"
proof -
  let ?p = "os_path_join (if tgt = PyStr ''mark'' then mark_dir else phantom_dir) fname"
  have p: "row_filepath (DataDirs dirs) row = Inr ?p"
    using assms by (simp add: row_filepath_def getitem_def)
  have a: "\<forall>key ex. generate_examples_row w (DataDirs dirs) row = Inr (key, ex) \<longrightarrow>
          (\<exists>matfile iq_arr. matfiles w ?p = Some matfile \<and> matfile ''iq'' = Some iq_arr
           \<and> das_real (das ex) = complex_real (reshape_flat iq_arr)
           \<and> das_imag (das ex) = complex_imag (reshape_flat iq_arr))"
  proof (intro allI impI)
    fix key ex assume "generate_examples_row w (DataDirs dirs) row = Inr (key, ex)"
    from generate_examples_row_InrD [OF this] p
    show "\<exists>matfile iq_arr. matfiles w ?p = Some matfile \<and> matfile ''iq'' = Some iq_arr
           \<and> das_real (das ex) = complex_real (reshape_flat iq_arr)
           \<and> das_imag (das ex) = complex_imag (reshape_flat iq_arr)"
      by auto
  qed
  have b: "matfiles w ?p = None
      \<longrightarrow> generate_examples_row w (DataDirs dirs) row = Inl (NotFoundError ?p)"
    by (simp add: generate_examples_row_def p loadmat_def)
  from p a b show ?thesis by blast
qed

theorem matrix_path_by_target_witness:
  "row_filepath (DataDirs scenario_dirs) scenario_row = Inr ''/data/mark/a.mat''
   \<and> row_filepath (DataDirs scenario_dirs) zero_row = Inr ''/data/phantom/z.mat''
   \<and> (\<exists>matfile iq_arr. matfiles scenario_world ''/data/mark/a.mat'' = Some matfile
         \<and> matfile ''iq'' = Some iq_arr
         \<and> das_real (das scenario_example) = complex_real (reshape_flat iq_arr)
         \<and> das_imag (das scenario_example) = complex_imag (reshape_flat iq_arr))
   \<and> generate_examples_row (scenario_world\<lparr>matfiles := Map.empty\<rparr>) (DataDirs scenario_dirs)
         scenario_row = Inl (NotFoundError ''/data/mark/a.mat'')"
proof -
  have r: "scenario_row ''target'' = Some (PyStr ''mark'')"
    "scenario_row ''filename'' = Some (PyStr ''a.mat'')"
    "zero_row ''target'' = Some (PyStr ''phantom'')"
    "zero_row ''filename'' = Some (PyStr ''z.mat'')"
    by (simp_all add: scenario_row_def zero_row_def)
  have d: "scenario_dirs ''mark_data'' = Some ''/data/mark''"
    "scenario_dirs ''phantom_data'' = Some ''/data/phantom''"
    by (simp_all add: scenario_dirs_def)
  have j: "os_path_join ''/data/mark'' ''a.mat'' = ''/data/mark/a.mat''"
    "os_path_join ''/data/phantom'' ''z.mat'' = ''/data/phantom/z.mat''"
    by (simp_all add: os_path_join_def)
  from matrix_path_by_target [OF r(1,2) d, of scenario_world]
       matrix_path_by_target [OF r(3,4) d, of scenario_world]
       matrix_path_by_target [OF r(1,2) d, of "scenario_world\<lparr>matfiles := Map.empty\<rparr>"]
       scenario_row_example
  show ?thesis by (simp add: j)
qed

subsection \<open>The generator\<close>

text \<open>
  C8: the keys emitted for a manifest are the filename fields of its rows, in manifest
  order (of all rows when the run ends without an exception); so when no two rows share
  a filename, the emitted keys are pairwise distinct.
\<close>

theorem keys_are_filenames:
  assumes "manifests w csvpath = Some rows"
  shows "map (\<lambda>kv. Some (fst kv)) (fst (generate_examples w datapath csvpath))
           = map (\<lambda>r. r ''filename'')
               (take (length (fst (generate_examples w datapath csvpath))) rows)
    \<and> (snd (generate_examples w datapath csvpath) = None
          \<longrightarrow> length (fst (generate_examples w datapath csvpath)) = length rows)
    \<and> (distinct (map (\<lambda>r. r ''filename'') rows)
          \<longrightarrow> distinct (map fst (fst (generate_examples w datapath csvpath))))"
proof -
  let ?out = "fst (generate_examples_loop w datapath rows)"
  have g: "generate_examples w datapath csvpath = generate_examples_loop w datapath rows"
    using assms by (simp add: generate_examples_def)
  have k: "map (\<lambda>kv. Some (fst kv)) ?out = map (\<lambda>r. r ''filename'') (take (length ?out) rows)"
    by (rule generate_examples_loop_keys)
  have d: "distinct (map fst ?out)" if "distinct (map (\<lambda>r. r ''filename'') rows)"
  proof -
    from that have "distinct (take (length ?out) (map (\<lambda>r. r ''filename'') rows))"
      by (rule distinct_take)
    then have "distinct (map (\<lambda>kv. Some (fst kv)) ?out)"
      by (simp add: k take_map)
    then have "distinct (map Some (map fst ?out))" by (simp add: comp_def)
    then have "distinct (map fst ?out) \<and> inj_on Some (set (map fst ?out))"
      by (simp only: distinct_map)
    then show ?thesis by (rule conjunct1)
  qed
  show ?thesis using k d generate_examples_loop_complete [of w datapath rows]
    by (simp add: g)
qed

theorem keys_are_filenames_witness:
  "manifests scenario_world ''two.csv'' = Some [scenario_row, zero_row]
   \<and> map fst (fst (generate_examples scenario_world (DataDirs scenario_dirs) ''two.csv''))
       = [PyStr ''a.mat'', PyStr ''z.mat'']
   \<and> map (\<lambda>r. r ''filename'') [scenario_row, zero_row]
       = [Some (PyStr ''a.mat''), Some (PyStr ''z.mat'')]
   \<and> snd (generate_examples scenario_world (DataDirs scenario_dirs) ''two.csv'') = None
   \<and> length (fst (generate_examples scenario_world (DataDirs scenario_dirs) ''two.csv''))
       = length [scenario_row, zero_row]
   \<and> distinct (map fst (fst (generate_examples scenario_world (DataDirs scenario_dirs) ''two.csv'')))"
proof -
  have f: "map (\<lambda>r. r ''filename'') [scenario_row, zero_row]
       = [Some (PyStr ''a.mat''), Some (PyStr ''z.mat'')]"
    by (simp add: scenario_row_def zero_row_def)
  then have d: "distinct (map (\<lambda>r. r ''filename'') [scenario_row, zero_row])" by simp
  have n: "snd (generate_examples scenario_world (DataDirs scenario_dirs) ''two.csv'') = None"
    by (simp add: two_csv_examples)
  from keys_are_filenames [OF two_csv_manifest, of "DataDirs scenario_dirs"] d n
  have "distinct (map fst (fst (generate_examples scenario_world (DataDirs scenario_dirs) ''two.csv'')))"
    and "length (fst (generate_examples scenario_world (DataDirs scenario_dirs) ''two.csv''))
       = length [scenario_row, zero_row]"
    by blast+
  then show ?thesis using f n two_csv_manifest by (simp add: two_csv_examples)
qed

text \<open>
  C9, as the spec states it, fails in one field: in the end-to-end scenario the emitted
  record's \<^verbatim>\<open>harmonic\<close> is not the boolean False.
\<close>

theorem scenario_harmonic_not_boolean:
  "harmonic (snd (hd (fst (generate_examples scenario_world (DataDirs scenario_dirs) ''manifest.csv''))))
     \<noteq> PyBool False"
  by (simp add: generate_examples_def one_csv_manifest scenario_row_example scenario_example_def)

text \<open>
  C9, amended: for the one-row manifest of \<^verbatim>\<open>a.mat\<close> with target \<^verbatim>\<open>mark\<close> and a
  matrix file in the mark-data directory holding \<^verbatim>\<open>iq = [1+1j, 0+2j]\<close> and
  \<^verbatim>\<open>dtce = [0.1, 0.2]\<close>, the generator emits exactly one pair and no exception; its
  key is \<^verbatim>\<open>a.mat\<close>, \<^verbatim>\<open>das.real = [1, 0]\<close>, \<^verbatim>\<open>das.imag = [1, 2]\<close>,
  \<^verbatim>\<open>das.dB\<close> has length 2 and maximum 0, \<^verbatim>\<open>dtce = [0.1, 0.2]\<close>, and
  \<^verbatim>\<open>harmonic\<close> is the row's string \<^verbatim>\<open>'False'\<close>, copied verbatim.
\<close>

theorem scenario_end_to_end:
  "fst (generate_examples scenario_world (DataDirs scenario_dirs) ''manifest.csv'')
      = [(PyStr ''a.mat'', scenario_example)]
   \<and> snd (generate_examples scenario_world (DataDirs scenario_dirs) ''manifest.csv'') = None
   \<and> das_real (das scenario_example) = [Fin 1, Fin 0]
   \<and> das_imag (das scenario_example) = [Fin 1, Fin 2]
   \<and> length (das_dB (das scenario_example)) = 2
   \<and> np_max (das_dB (das scenario_example)) = Inr (Fin 0)
   \<and> dtce scenario_example = [Fin (1 / 10), Fin (2 / 10)]
   \<and> harmonic scenario_example = PyStr ''False''"
proof -
  have "sqrt 2 / 2 \<le> 1" using real_le_lsqrt [of 2 2] by simp
  then have "log 10 (sqrt 2 / 2) \<le> 0" by simp
  then have "np_max (das_dB (das scenario_example)) = Inr (Fin 0)"
    by (simp add: scenario_example_def np_max_def max_def)
  then show ?thesis
    by (simp add: generate_examples_def one_csv_manifest scenario_row_example)
       (simp add: scenario_example_def)
qed

text \<open>
  C10: the generator is deterministic and reads nothing but its stated inputs. Two runs
  with the same manifest contents and the same data-directory mapping, over file systems
  that agree on every matrix file the manifest's rows resolve to, produce the same
  sequence of pairs and the same outcome, whatever else differs between the two file
  systems; and the i-th pair emitted is the one made from the i-th manifest row.
\<close>

theorem generate_examples_deterministic:
  assumes "manifests w1 csvpath = manifests w2 csvpath"
    and "\<forall>rows. manifests w1 csvpath = Some rows \<longrightarrow>
           (\<forall>row\<in>set rows. \<forall>p. row_filepath datapath row = Inr p
               \<longrightarrow> matfiles w1 p = matfiles w2 p)"
  shows "generate_examples w1 datapath csvpath = generate_examples w2 datapath csvpath
    \<and> (\<forall>rows i. manifests w1 csvpath = Some rows
          \<and> i < length (fst (generate_examples w1 datapath csvpath))
        \<longrightarrow> i < length rows
          \<and> generate_examples_row w1 datapath (rows ! i)
              = Inr (fst (generate_examples w1 datapath csvpath) ! i))"
proof -
  have eq: "generate_examples w1 datapath csvpath = generate_examples w2 datapath csvpath"
  proof (cases "manifests w1 csvpath")
    case None
    with assms(1) show ?thesis by (simp add: generate_examples_def)
  next
    case (Some rows)
    with assms(2) have "generate_examples_loop w1 datapath rows = generate_examples_loop w2 datapath rows"
      by (intro generate_examples_loop_cong) simp
    with Some assms(1) show ?thesis by (simp add: generate_examples_def)
  qed
  have ord: "\<forall>rows i. manifests w1 csvpath = Some rows
          \<and> i < length (fst (generate_examples w1 datapath csvpath))
        \<longrightarrow> i < length rows
          \<and> generate_examples_row w1 datapath (rows ! i)
              = Inr (fst (generate_examples w1 datapath csvpath) ! i)"
    using generate_examples_loop_nth [of _ w1 datapath]
    by (auto simp: generate_examples_def)
  from eq ord show ?thesis by blast
qed

theorem generate_examples_deterministic_witness:
  "generate_examples scenario_world (DataDirs scenario_dirs) ''two.csv''
     = generate_examples
         (scenario_world\<lparr>manifests := (manifests scenario_world)(''other.csv'' \<mapsto> []),
                         matfiles := (matfiles scenario_world)(''/tmp/other.mat'' \<mapsto> zero_matfile)\<rparr>)
         (DataDirs scenario_dirs) ''two.csv''
   \<and> generate_examples scenario_world (DataDirs scenario_dirs) ''two.csv''
     = ([(PyStr ''a.mat'', scenario_example), (PyStr ''z.mat'', zero_example)], None)
   \<and> generate_examples_row scenario_world (DataDirs scenario_dirs) ([scenario_row, zero_row] ! 1)
     = Inr (fst (generate_examples scenario_world (DataDirs scenario_dirs) ''two.csv'') ! 1)"
proof -
  let ?w2 = "scenario_world\<lparr>manifests := (manifests scenario_world)(''other.csv'' \<mapsto> []),
                         matfiles := (matfiles scenario_world)(''/tmp/other.mat'' \<mapsto> zero_matfile)\<rparr>"
  have m: "manifests scenario_world ''two.csv'' = manifests ?w2 ''two.csv''" by simp
  have f: "\<forall>rows. manifests scenario_world ''two.csv'' = Some rows \<longrightarrow>
           (\<forall>row\<in>set rows. \<forall>p. row_filepath (DataDirs scenario_dirs) row = Inr p
               \<longrightarrow> matfiles scenario_world p = matfiles ?w2 p)"
    by (auto simp: two_csv_manifest scenario_row_filepath zero_row_filepath)
  have i: "1 < length (fst (generate_examples scenario_world (DataDirs scenario_dirs) ''two.csv''))"
    by (simp add: two_csv_examples)
  from generate_examples_deterministic [OF m f] two_csv_manifest i
  have "generate_examples scenario_world (DataDirs scenario_dirs) ''two.csv''
          = generate_examples ?w2 (DataDirs scenario_dirs) ''two.csv''"
    and "generate_examples_row scenario_world (DataDirs scenario_dirs) ([scenario_row, zero_row] ! 1)
          = Inr (fst (generate_examples scenario_world (DataDirs scenario_dirs) ''two.csv'') ! 1)"
    by blast+
  then show ?thesis using two_csv_examples by simp
qed

end
